theory Spec2Isabelle
  imports Complex_Main
begin

section \<open>Identities, creation options and notification payloads\<close>

text \<open>
  An \<open>Identity\<close> is \<open>{ uuid, name? }\<close>. A missing property (\<open>undefined\<close>) is \<open>None\<close>.
\<close>

record Identity =
  uuid :: string
  name :: "string option"

text \<open>
  \<open>WindowOption\<close>: the creation options. Only \<open>name\<close> is required (field \<open>optName\<close>, since
  \<open>name\<close> is the field of \<open>Identity\<close>); the other recognised fields may be \<open>undefined\<close>.
\<close>

record WindowOption =
  optName :: string
  url :: "string option"
  waitForPageLoad :: "bool option"
  autoShow :: "bool option"

text \<open>
  The caller's options object lives in a store, so that the reference handed to
  \<open>create\<close>, the one mutated by \<open>createWindow\<close> and the one passed on to
  \<open>createChildWindow\<close> are visibly the same object.
\<close>

type_synonym addr = nat
type_synonym heap = "addr \<Rightarrow> WindowOption"

text \<open>The payload of the constructor-callback notification: \<open>{ success, data: {...} }\<close>.\<close>

record ResponseData =
  message :: string
  httpResponseCode :: "int option"
  apiInjected :: "bool option"
  networkErrorCode :: "int option"
  stack :: "string option"

record Response =
  success :: bool
  data :: ResponseData

text \<open>\<open>cbPayload\<close> is one of two object shapes, chosen by \<open>success\<close>.\<close>

datatype cbPayload =
  SuccessPayload "int option" "bool option"
| FailurePayload string "int option" "string option"

text \<open>The value \<open>pageResponse\<close> is resolved with: \<open>{ message, cbPayload, success }\<close>.\<close>

record PageResolve =
  pr_message :: string
  pr_cbPayload :: cbPayload
  pr_success :: bool

section \<open>Handles\<close>

text \<open>
  A \<open>_Window\<close> object has the own property \<open>identity\<close> and a prototype link through
  which every method of the class is found. \<open>Object.setPrototypeOf(this, null)\<close> sets the
  link to \<open>None\<close>.
\<close>

datatype prototype = Window_prototype

record Window =
  identity :: Identity
  proto :: "prototype option"

definition new_Window :: "Identity \<Rightarrow> Window" where
  "new_Window ident = \<lparr>identity = ident, proto = Some Window_prototype\<rparr>"

section \<open>Promises\<close>

datatype ('a, 'e) promise = Pending | Fulfilled 'a | Rejected 'e

text \<open>Resolving or rejecting a promise that is already settled does nothing.\<close>

definition settle :: "('a, 'e) promise \<Rightarrow> ('a, 'e) promise \<Rightarrow> ('a, 'e) promise" where
  "settle p v = (case p of Pending \<Rightarrow> v | _ \<Rightarrow> p)"

text \<open>
  \<open>Promise.all([p, q])\<close>: rejected as soon as one input is rejected, fulfilled with the
  array of values once both are fulfilled, pending otherwise.
\<close>

fun promise_all :: "('a, 'e) promise \<Rightarrow> ('b, 'e) promise \<Rightarrow> ('a \<times> 'b, 'e) promise" where
  "promise_all (Rejected e) q = Rejected e"
| "promise_all p (Rejected e) = Rejected e"
| "promise_all (Fulfilled a) (Fulfilled b) = Fulfilled (a, b)"
| "promise_all p q = Pending"

section \<open>The creation handshake: \<open>createWindow\<close>\<close>

text \<open>
  The listeners of a handle. \<open>FireConstructor\<close> is the closure \<open>fireConstructor\<close> of
  \<open>createWindow\<close>; \<open>UserListener n\<close> stands for any other callback registered on the
  handle, which does not touch the handshake.
\<close>

datatype listener = FireConstructor | UserListener nat

text \<open>What a delivery does, in the order it does it (a record of the run, for the proofs).\<close>

datatype effect =
  Invoke listener
| RemoveListener string listener
| Resolve PageResolve

text \<open>A value passed to \<open>reject\<close> of the promise returned by \<open>createWindow\<close>.\<close>

datatype 'e reason = RpcRejection 'e | PageRejection PageResolve

record 'e creation =
  this :: Window
  heap :: heap
  listeners :: "(string \<times> listener) list"
  trace :: "effect list"
  pageResponse :: "(PageResolve, 'e) promise"
  createChildWindow_calls :: "(addr \<times> WindowOption) list"
  windowCreation :: "(unit, 'e) promise"
  joined :: "(PageResolve \<times> unit, 'e) promise"
  result :: "(Window, 'e reason) promise"
  webWindow_accessible :: bool
  openerSuccessCBCalled :: nat

definition CONSTRUCTOR_CB_TOPIC :: string where
  "CONSTRUCTOR_CB_TOPIC = ''fire-constructor-callback''"

text \<open>
  Modelled from the spec: the listener registry (\<open>on\<close>, \<open>removeListener\<close> and the
  delivery of a notification), which the class inherits and whose code is not in the
  source at hand. Registration and removal are local and take effect at once;
  \<open>removeListener\<close> removes one registration of the given callback; a delivery on a
  topic invokes, in order, the callbacks registered on that topic when it starts. The
  call \<open>this.removeListener(...)\<close> inside \<open>fireConstructor\<close> is a call of this removal.
\<close>

definition user_listeners :: "(string \<times> nat) list \<Rightarrow> (string \<times> listener) list" where
  "user_listeners ls = map (\<lambda>tn. (fst tn, UserListener (snd tn))) ls"

definition on :: "string \<Rightarrow> listener \<Rightarrow> (string \<times> listener) list \<Rightarrow> (string \<times> listener) list" where
  "on topic l ls = ls @ [(topic, l)]"

definition removeListener :: "string \<Rightarrow> listener \<Rightarrow> 'e creation \<Rightarrow> 'e creation" where
  "removeListener topic l st =
     st\<lparr>listeners := remove1 (topic, l) (listeners st),
        trace := trace st @ [RemoveListener topic l]\<rparr>"

text \<open>\<open>resolve\<close> of the promise \<open>pageResponse\<close>.\<close>

definition resolve_pageResponse :: "PageResolve \<Rightarrow> 'e creation \<Rightarrow> 'e creation" where
  "resolve_pageResponse v st =
     st\<lparr>pageResponse := settle (pageResponse st) (Fulfilled v),
        trace := trace st @ [Resolve v]\<rparr>"

text \<open>The body of \<open>fireConstructor(response)\<close>.\<close>

definition fireConstructor :: "Response \<Rightarrow> 'e creation \<Rightarrow> 'e creation" where
  "fireConstructor response st =
     (let success' = success response;
          responseData = data response;
          message' = message responseData;
          cbPayload =
            (if success'
             then SuccessPayload (httpResponseCode responseData) (apiInjected responseData)
             else FailurePayload (message responseData) (networkErrorCode responseData)
                    (stack responseData));
          st1 = removeListener CONSTRUCTOR_CB_TOPIC FireConstructor st
      in resolve_pageResponse
           \<lparr>pr_message = message', pr_cbPayload = cbPayload, pr_success = success'\<rparr> st1)"

fun invoke_listener :: "Response \<Rightarrow> listener \<Rightarrow> 'e creation \<Rightarrow> 'e creation" where
  "invoke_listener response FireConstructor st =
     fireConstructor response (st\<lparr>trace := trace st @ [Invoke FireConstructor]\<rparr>)"
| "invoke_listener response (UserListener n) st =
     st\<lparr>trace := trace st @ [Invoke (UserListener n)]\<rparr>"

definition emit :: "string \<Rightarrow> Response \<Rightarrow> 'e creation \<Rightarrow> 'e creation" where
  "emit topic response st =
     fold (invoke_listener response)
       (map snd (filter (\<lambda>tl. fst tl = topic) (listeners st))) st"

text \<open>The defaults set on the options object (\<open>=== void 0\<close> is \<open>= None\<close>).\<close>

definition set_defaults :: "WindowOption \<Rightarrow> WindowOption" where
  "set_defaults options =
     (let o1 = (if waitForPageLoad options = None
                then options\<lparr>waitForPageLoad := Some False\<rparr> else options);
          o2 = (if autoShow o1 = None then o1\<lparr>autoShow := Some True\<rparr> else o1)
      in o2)"

text \<open>
  \<open>createWindow(options)\<close> up to the point where it returns its promise: the executor
  registers \<open>fireConstructor\<close>, writes the defaults into the options object, calls
  \<open>createChildWindow(options)\<close> with that same object, and chains the join. \<open>ls\<close> are the
  callbacks already registered on the handle, \<open>acc\<close> says whether the child's window
  object can be reached from the parent (it cannot across origins).
\<close>

definition createWindow ::
  "Window \<Rightarrow> (string \<times> nat) list \<Rightarrow> bool \<Rightarrow> addr \<Rightarrow> heap \<Rightarrow> 'e creation" where
  "createWindow win ls acc options h =
     (let h' = h(options := set_defaults (h options)) in
      \<lparr>this = win,
       heap = h',
       listeners = on CONSTRUCTOR_CB_TOPIC FireConstructor (user_listeners ls),
       trace = [],
       pageResponse = Pending,
       createChildWindow_calls = [(options, h' options)],
       windowCreation = Pending,
       joined = Pending,
       result = Pending,
       webWindow_accessible = acc,
       openerSuccessCBCalled = 0\<rparr>)"

text \<open>\<open>_WindowModule.create(options)\<close>, with \<open>me\<close> the identity held by the module.\<close>

definition create ::
  "Identity \<Rightarrow> (string \<times> nat) list \<Rightarrow> bool \<Rightarrow> addr \<Rightarrow> heap \<Rightarrow> 'e creation" where
  "create me ls acc options h =
     createWindow (new_Window \<lparr>uuid = uuid me, name = Some (optName (h options))\<rparr>)
       ls acc options h"

text \<open>
  The callback of \<open>.then\<close>: settle the returned promise from \<open>resolvedArr[0]\<close>, then try
  to call the child's \<open>openerSuccessCBCalled\<close>; an exception there is swallowed.
\<close>

definition then_callback :: "PageResolve \<times> unit \<Rightarrow> 'e creation \<Rightarrow> 'e creation" where
  "then_callback resolvedArr st =
     (let pageResolve = fst resolvedArr;
          st1 = (if pr_success pageResolve
                 then st\<lparr>result := settle (result st) (Fulfilled (this st))\<rparr>
                 else st\<lparr>result := settle (result st) (Rejected (PageRejection pageResolve))\<rparr>)
      in if webWindow_accessible st1
         then st1\<lparr>openerSuccessCBCalled := openerSuccessCBCalled st1 + 1\<rparr>
         else st1)"

text \<open>The callback of \<open>.catch\<close> is \<open>reject\<close> itself.\<close>

definition catch_callback :: "'e \<Rightarrow> 'e creation \<Rightarrow> 'e creation" where
  "catch_callback e st = st\<lparr>result := settle (result st) (Rejected (RpcRejection e))\<rparr>"

text \<open>
  The reactions of \<open>Promise.all([pageResponse, windowCreation]).then(...).catch(reject)\<close>,
  run after every event: the join settles once, and the callback for its outcome runs then.
\<close>

definition react :: "'e creation \<Rightarrow> 'e creation" where
  "react st =
     (case joined st of
        Pending \<Rightarrow>
          (case promise_all (pageResponse st) (windowCreation st) of
             Pending \<Rightarrow> st
           | Fulfilled resolvedArr \<Rightarrow> then_callback resolvedArr (st\<lparr>joined := Fulfilled resolvedArr\<rparr>)
           | Rejected e \<Rightarrow> catch_callback e (st\<lparr>joined := Rejected e\<rparr>))
      | _ \<Rightarrow> st)"

text \<open>
  What can happen to a pending creation: the transport delivers a notification on a
  topic of the handle, or the promise of \<open>createChildWindow\<close> settles.
\<close>

datatype 'e event = is_Notify: Notify string Response | RpcResolve | RpcReject 'e

fun step :: "'e event \<Rightarrow> 'e creation \<Rightarrow> 'e creation" where
  "step (Notify topic response) st = react (emit topic response st)"
| "step RpcResolve st =
     react (st\<lparr>windowCreation := settle (windowCreation st) (Fulfilled ())\<rparr>)"
| "step (RpcReject e) st =
     react (st\<lparr>windowCreation := settle (windowCreation st) (Rejected e)\<rparr>)"

definition run :: "'e event list \<Rightarrow> 'e creation \<Rightarrow> 'e creation" where
  "run evs st = fold step evs st"

subsection \<open>Reading a history of events\<close>

text \<open>
  The first constructor-callback notification of a history, and the first settlement of
  the \<open>createChildWindow\<close> promise in it (a promise settles once), as the promise it
  leaves behind.
\<close>

fun first_page :: "'e event list \<Rightarrow> Response option" where
  "first_page [] = None"
| "first_page (Notify topic response # evs) =
     (if topic = CONSTRUCTOR_CB_TOPIC then Some response else first_page evs)"
| "first_page (RpcResolve # evs) = first_page evs"
| "first_page (RpcReject e # evs) = first_page evs"

fun first_rpc :: "'e event list \<Rightarrow> (unit, 'e) promise" where
  "first_rpc [] = Pending"
| "first_rpc (Notify topic response # evs) = first_rpc evs"
| "first_rpc (RpcResolve # evs) = Fulfilled ()"
| "first_rpc (RpcReject e # evs) = Rejected e"

text \<open>The object \<open>fireConstructor\<close> passes to \<open>resolve\<close> for a given notification.\<close>

definition page_outcome :: "Response \<Rightarrow> PageResolve" where
  "page_outcome response =
     \<lparr>pr_message = message (data response),
      pr_cbPayload =
        (if success response
         then SuccessPayload (httpResponseCode (data response)) (apiInjected (data response))
         else FailurePayload (message (data response)) (networkErrorCode (data response))
                (stack (data response))),
      pr_success = success response\<rparr>"

text \<open>What the two callbacks make of the settled join, for the handle \<open>win\<close>.\<close>

definition join_outcome ::
  "Window \<Rightarrow> (PageResolve \<times> unit, 'e) promise \<Rightarrow> (Window, 'e reason) promise" where
  "join_outcome win j =
     (case j of
        Pending \<Rightarrow> Pending
      | Fulfilled resolvedArr \<Rightarrow>
          (if pr_success (fst resolvedArr) then Fulfilled win
           else Rejected (PageRejection (fst resolvedArr)))
      | Rejected e \<Rightarrow> Rejected (RpcRejection e))"

text \<open>
  The effects of a delivery that belong to the handshake (all but the calls of other
  callbacks).
\<close>

fun handshake_effect :: "effect \<Rightarrow> bool" where
  "handshake_effect (Invoke (UserListener n)) = False"
| "handshake_effect (Invoke FireConstructor) = True"
| "handshake_effect (RemoveListener topic l) = True"
| "handshake_effect (Resolve v) = True"

text \<open>
  The state of a creation after a history of events, written out from the history: the
  invariant of \<open>step\<close>.
\<close>

definition reached ::
  "Window \<Rightarrow> (string \<times> nat) list \<Rightarrow> 'e event list \<Rightarrow> 'e creation \<Rightarrow> bool" where
  "reached win ls evs st \<longleftrightarrow>
     this st = win \<and>
     pageResponse st =
       (case first_page evs of None \<Rightarrow> Pending | Some r \<Rightarrow> Fulfilled (page_outcome r)) \<and>
     listeners st =
       (case first_page evs of
          None \<Rightarrow> on CONSTRUCTOR_CB_TOPIC FireConstructor (user_listeners ls)
        | Some r \<Rightarrow> user_listeners ls) \<and>
     filter handshake_effect (trace st) =
       (case first_page evs of
          None \<Rightarrow> []
        | Some r \<Rightarrow>
            [Invoke FireConstructor, RemoveListener CONSTRUCTOR_CB_TOPIC FireConstructor,
             Resolve (page_outcome r)]) \<and>
     windowCreation st = first_rpc evs \<and>
     joined st = promise_all (pageResponse st) (windowCreation st) \<and>
     result st = join_outcome win (joined st)"

section \<open>The transport and the payloads of the window operations\<close>

text \<open>
  A JavaScript number is modelled as a real (no NaN, no infinities); \<open>Math.floor\<close> is
  \<open>floor\<close>. An object is a finite map from property names to values, and
  \<open>Object.assign({}, a, b)\<close> is the union of \<open>a\<close> and \<open>b\<close> in which \<open>b\<close> wins.
\<close>

datatype json =
  JUndefined
| JBool bool
| JNum real
| JStr string
| JObj "(string \<times> json) list"

type_synonym payload = "string \<rightharpoonup> json"

definition Object_assign :: "payload \<Rightarrow> payload \<Rightarrow> payload" where
  "Object_assign a b = a ++ b"

definition Math_floor :: "real \<Rightarrow> real" where
  "Math_floor x = of_int \<lfloor>x\<rfloor>"

definition identity_payload :: "Identity \<Rightarrow> payload" where
  "identity_payload ident =
     (case name ident of
        None \<Rightarrow> [''uuid'' \<mapsto> JStr (uuid ident)]
      | Some n \<Rightarrow> [''uuid'' \<mapsto> JStr (uuid ident), ''name'' \<mapsto> JStr n])"

text \<open>The transport, as far as a handle is concerned: the requests sent so far.\<close>

record wire =
  sent :: "(string \<times> payload) list"

definition sendAction :: "string \<Rightarrow> payload \<Rightarrow> wire \<Rightarrow> wire" where
  "sendAction topic p w = w\<lparr>sent := sent w @ [(topic, p)]\<rparr>"

record WindowMovementOptions =
  moveIndependently :: bool

definition movement_options :: "WindowMovementOptions option \<Rightarrow> json" where
  "movement_options options =
     (case options of
        None \<Rightarrow> JObj [(''moveIndependently'', JBool False)]
      | Some v \<Rightarrow> JObj [(''moveIndependently'', JBool (moveIndependently v))])"

definition default_false :: "bool option \<Rightarrow> bool" where
  "default_false b = (case b of None \<Rightarrow> False | Some v \<Rightarrow> v)"

definition anchor_json :: "string option \<Rightarrow> json" where
  "anchor_json anchor = (case anchor of None \<Rightarrow> JUndefined | Some a \<Rightarrow> JStr a)"

record Bounds =
  height :: real
  width :: real
  top :: real
  left :: real
  right :: "real option"
  bottom :: "real option"

text \<open>The own enumerable properties of a \<open>Bounds\<close> object, as \<open>{...bounds}\<close> copies them.\<close>

definition spread_bounds :: "Bounds \<Rightarrow> payload" where
  "spread_bounds b =
     Object_assign
       (Object_assign
          [''height'' \<mapsto> JNum (height b), ''width'' \<mapsto> JNum (width b),
           ''top'' \<mapsto> JNum (top b), ''left'' \<mapsto> JNum (left b)]
          (case right b of None \<Rightarrow> Map.empty | Some v \<Rightarrow> [''right'' \<mapsto> JNum v]))
       (case bottom b of None \<Rightarrow> Map.empty | Some v \<Rightarrow> [''bottom'' \<mapsto> JNum v])"

subsection \<open>The operations that carry arguments\<close>

definition animate :: "json \<Rightarrow> json \<Rightarrow> Window \<Rightarrow> wire \<Rightarrow> wire" where
  "animate transitions options win w =
     sendAction ''animate-window''
       (Object_assign [''transitions'' \<mapsto> transitions, ''options'' \<mapsto> options]
          (identity_payload (identity win))) w"

definition close :: "bool option \<Rightarrow> Window \<Rightarrow> wire \<Rightarrow> wire" where
  "close force win w =
     sendAction ''close-window''
       (Object_assign [''force'' \<mapsto> JBool (default_false force)]
          (identity_payload (identity win))) w"

definition getGroup :: "Window \<Rightarrow> wire \<Rightarrow> wire" where
  "getGroup win w =
     sendAction ''get-window-group''
       (Object_assign [''crossApp'' \<mapsto> JBool True] (identity_payload (identity win))) w"

definition getSnapshot :: "json \<Rightarrow> Window \<Rightarrow> wire \<Rightarrow> wire" where
  "getSnapshot area win w =
     sendAction ''get-window-snapshot''
       (Object_assign [''area'' \<mapsto> area] (identity_payload (identity win))) w"

definition joinGroup :: "Identity \<Rightarrow> Window \<Rightarrow> wire \<Rightarrow> wire" where
  "joinGroup target win w =
     sendAction ''join-window-group''
       (Object_assign
          [''groupingUuid'' \<mapsto> JStr (uuid target),
           ''groupingWindowName'' \<mapsto> (case name target of None \<Rightarrow> JUndefined | Some n \<Rightarrow> JStr n)]
          (identity_payload (identity win))) w"

definition reload :: "bool option \<Rightarrow> Window \<Rightarrow> wire \<Rightarrow> wire" where
  "reload ignoreCache win w =
     sendAction ''reload-window''
       (Object_assign [''ignoreCache'' \<mapsto> JBool (default_false ignoreCache)]
          (identity_payload (identity win))) w"

definition mergeGroups :: "Identity \<Rightarrow> Window \<Rightarrow> wire \<Rightarrow> wire" where
  "mergeGroups target win w =
     sendAction ''merge-window-groups''
       (Object_assign
          [''groupingUuid'' \<mapsto> JStr (uuid target),
           ''groupingWindowName'' \<mapsto> (case name target of None \<Rightarrow> JUndefined | Some n \<Rightarrow> JStr n)]
          (identity_payload (identity win))) w"

definition moveBy ::
  "real \<Rightarrow> real \<Rightarrow> WindowMovementOptions option \<Rightarrow> Window \<Rightarrow> wire \<Rightarrow> wire" where
  "moveBy deltaLeft deltaTop options win w =
     sendAction ''move-window-by''
       (Object_assign
          [''deltaLeft'' \<mapsto> JNum deltaLeft, ''deltaTop'' \<mapsto> JNum deltaTop,
           ''options'' \<mapsto> movement_options options]
          (identity_payload (identity win))) w"

definition moveTo ::
  "real \<Rightarrow> real \<Rightarrow> WindowMovementOptions option \<Rightarrow> Window \<Rightarrow> wire \<Rightarrow> wire" where
  "moveTo left' top' options win w =
     sendAction ''move-window''
       (Object_assign
          [''left'' \<mapsto> JNum left', ''top'' \<mapsto> JNum top',
           ''options'' \<mapsto> movement_options options]
          (identity_payload (identity win))) w"

definition resizeBy ::
  "real \<Rightarrow> real \<Rightarrow> string option \<Rightarrow> WindowMovementOptions option \<Rightarrow> Window \<Rightarrow> wire \<Rightarrow> wire"
  where
  "resizeBy deltaWidth deltaHeight anchor options win w =
     sendAction ''resize-window-by''
       (Object_assign
          [''deltaWidth'' \<mapsto> JNum (Math_floor deltaWidth),
           ''deltaHeight'' \<mapsto> JNum (Math_floor deltaHeight),
           ''anchor'' \<mapsto> anchor_json anchor,
           ''options'' \<mapsto> movement_options options]
          (identity_payload (identity win))) w"

definition resizeTo ::
  "real \<Rightarrow> real \<Rightarrow> string option \<Rightarrow> WindowMovementOptions option \<Rightarrow> Window \<Rightarrow> wire \<Rightarrow> wire"
  where
  "resizeTo width' height' anchor options win w =
     sendAction ''resize-window''
       (Object_assign
          [''width'' \<mapsto> JNum (Math_floor width'),
           ''height'' \<mapsto> JNum (Math_floor height'),
           ''anchor'' \<mapsto> anchor_json anchor,
           ''options'' \<mapsto> movement_options options]
          (identity_payload (identity win))) w"

definition setBounds :: "Bounds \<Rightarrow> WindowMovementOptions option \<Rightarrow> Window \<Rightarrow> wire \<Rightarrow> wire" where
  "setBounds bounds options win w =
     sendAction ''set-window-bounds''
       (Object_assign
          (Object_assign (spread_bounds bounds) [''options'' \<mapsto> movement_options options])
          (identity_payload (identity win))) w"

definition show' :: "bool option \<Rightarrow> Window \<Rightarrow> wire \<Rightarrow> wire" where
  "show' force win w =
     sendAction ''show-window''
       (Object_assign [''force'' \<mapsto> JBool (default_false force)]
          (identity_payload (identity win))) w"

definition showAt ::
  "real \<Rightarrow> real \<Rightarrow> bool option \<Rightarrow> WindowMovementOptions option \<Rightarrow> Window \<Rightarrow> wire \<Rightarrow> wire"
  where
  "showAt left' top' force options win w =
     sendAction ''show-at-window''
       (Object_assign
          [''force'' \<mapsto> JBool (default_false force),
           ''left'' \<mapsto> JNum (Math_floor left'),
           ''top'' \<mapsto> JNum (Math_floor top'),
           ''options'' \<mapsto> movement_options options]
          (identity_payload (identity win))) w"

definition updateOptions :: "json \<Rightarrow> Window \<Rightarrow> wire \<Rightarrow> wire" where
  "updateOptions options win w =
     sendAction ''update-window-options''
       (Object_assign [''options'' \<mapsto> options] (identity_payload (identity win))) w"

definition authenticate :: "string \<Rightarrow> string \<Rightarrow> Window \<Rightarrow> wire \<Rightarrow> wire" where
  "authenticate userName password win w =
     sendAction ''window-authenticate''
       (Object_assign [''userName'' \<mapsto> JStr userName, ''password'' \<mapsto> JStr password]
          (identity_payload (identity win))) w"

subsection \<open>Calling a method of a handle\<close>

text \<open>
  A call \<open>win.m(args)\<close> of one of the operations of the class that go through
  \<open>sendAction\<close>. Those without arguments send the handle's identity under their topic.
\<close>

datatype call =
    GetAllFrames
  | GetBounds
  | Focus
  | Center
  | Blur
  | BringToFront
  | Hide
  | GetNativeId
  | DisableFrame
  | DisableUserMovement
  | EnableFrame
  | EnableUserMovement
  | Flash
  | StopFlashing
  | GetInfo
  | GetOptions
  | GetState
  | IsShowing
  | LeaveGroup
  | Maximize
  | Minimize
  | Restore
  | SetAsForeground
  | ShowDeveloperTools
  | Animate json json
  | Close "bool option"
  | GetGroup
  | GetSnapshot json
  | JoinGroup Identity
  | Reload "bool option"
  | MergeGroups Identity
  | MoveBy real real "WindowMovementOptions option"
  | MoveTo real real "WindowMovementOptions option"
  | ResizeBy real real "string option" "WindowMovementOptions option"
  | ResizeTo real real "string option" "WindowMovementOptions option"
  | SetBounds Bounds "WindowMovementOptions option"
  | Show "bool option"
  | ShowAt real real "bool option" "WindowMovementOptions option"
  | UpdateOptions json
  | Authenticate string string

fun body :: "call \<Rightarrow> Window \<Rightarrow> wire \<Rightarrow> wire" where
  "body GetAllFrames win w = sendAction ''get-all-frames'' (identity_payload (identity win)) w"
| "body GetBounds win w = sendAction ''get-window-bounds'' (identity_payload (identity win)) w"
| "body Focus win w = sendAction ''focus-window'' (identity_payload (identity win)) w"
| "body Center win w = sendAction ''center-window'' (identity_payload (identity win)) w"
| "body Blur win w = sendAction ''blur-window'' (identity_payload (identity win)) w"
| "body BringToFront win w = sendAction ''bring-window-to-front'' (identity_payload (identity win)) w"
| "body Hide win w = sendAction ''hide-window'' (identity_payload (identity win)) w"
| "body GetNativeId win w = sendAction ''get-window-native-id'' (identity_payload (identity win)) w"
| "body DisableFrame win w = sendAction ''disable-window-frame'' (identity_payload (identity win)) w"
| "body DisableUserMovement win w = sendAction ''disable-window-frame'' (identity_payload (identity win)) w"
| "body EnableFrame win w = sendAction ''enable-window-frame'' (identity_payload (identity win)) w"
| "body EnableUserMovement win w = sendAction ''enable-window-frame'' (identity_payload (identity win)) w"
| "body Flash win w = sendAction ''flash-window'' (identity_payload (identity win)) w"
| "body StopFlashing win w = sendAction ''stop-flash-window'' (identity_payload (identity win)) w"
| "body GetInfo win w = sendAction ''get-window-info'' (identity_payload (identity win)) w"
| "body GetOptions win w = sendAction ''get-window-options'' (identity_payload (identity win)) w"
| "body GetState win w = sendAction ''get-window-state'' (identity_payload (identity win)) w"
| "body IsShowing win w = sendAction ''is-window-showing'' (identity_payload (identity win)) w"
| "body LeaveGroup win w = sendAction ''leave-window-group'' (identity_payload (identity win)) w"
| "body Maximize win w = sendAction ''maximize-window'' (identity_payload (identity win)) w"
| "body Minimize win w = sendAction ''minimize-window'' (identity_payload (identity win)) w"
| "body Restore win w = sendAction ''restore-window'' (identity_payload (identity win)) w"
| "body SetAsForeground win w = sendAction ''set-foreground-window'' (identity_payload (identity win)) w"
| "body ShowDeveloperTools win w = sendAction ''show-developer-tools'' (identity_payload (identity win)) w"
| "body (Animate transitions options) win w = animate transitions options win w"
| "body (Close force) win w = close force win w"
| "body (GetGroup) win w = getGroup win w"
| "body (GetSnapshot area) win w = getSnapshot area win w"
| "body (JoinGroup target) win w = joinGroup target win w"
| "body (Reload ignoreCache) win w = reload ignoreCache win w"
| "body (MergeGroups target) win w = mergeGroups target win w"
| "body (MoveBy deltaLeft deltaTop options) win w = moveBy deltaLeft deltaTop options win w"
| "body (MoveTo l t options) win w = moveTo l t options win w"
| "body (ResizeBy deltaWidth deltaHeight anchor options) win w = resizeBy deltaWidth deltaHeight anchor options win w"
| "body (ResizeTo w' h' anchor options) win w = resizeTo w' h' anchor options win w"
| "body (SetBounds bounds options) win w = setBounds bounds options win w"
| "body (Show force) win w = show' force win w"
| "body (ShowAt l t force options) win w = showAt l t force options win w"
| "body (UpdateOptions options) win w = updateOptions options win w"
| "body (Authenticate userName password) win w = authenticate userName password win w"

text \<open>
  \<open>TypeError\<close> is what the engine throws when the callee is \<open>undefined\<close>. \<open>Closed\<close> is
  the error kind the specification names for a closed handle; no path of the source
  constructs it.
\<close>

datatype js_error = TypeError | Closed

text \<open>
  A function-valued member of a handle sits either on the object itself or on its
  prototype chain. The methods a class declares sit on its prototype, and the methods
  its base classes declare sit further up the same chain. Which members the object holds
  itself is decided by the constructors of the base classes, whose code is not in the
  source at hand: a member comes with the place where it sits.
\<close>

datatype 'f member = On_object 'f | On_prototype 'f

text \<open>
  \<open>win.m\<close>: a member on the object is found whatever the prototype link is; a member on
  the chain is found through the link, and is \<open>undefined\<close> once the link is cut.
\<close>

definition get_member :: "Window \<Rightarrow> 'f member \<Rightarrow> 'f option" where
  "get_member win m =
     (case m of
        On_object f \<Rightarrow> Some f
      | On_prototype f \<Rightarrow>
          (case proto win of None \<Rightarrow> None | Some Window_prototype \<Rightarrow> Some f))"

text \<open>
  \<open>win.m(args)\<close>: the call of \<open>undefined\<close> throws before anything of a method runs;
  otherwise the function runs with the handle as \<open>this\<close>.
\<close>

definition call_member :: "Window \<Rightarrow> (Window \<Rightarrow> 'a \<Rightarrow> 'r) member \<Rightarrow> 'a \<Rightarrow> js_error + 'r" where
  "call_member win m args =
     (case get_member win m of None \<Rightarrow> Inl TypeError | Some f \<Rightarrow> Inr (f win args))"

text \<open>
  A call of one of the operations of \<open>call\<close>, which the class declares, together with
  the transport: the transport changes only if the method runs.
\<close>

definition invoke :: "Window \<Rightarrow> call \<Rightarrow> wire \<Rightarrow> (js_error + unit) \<times> wire" where
  "invoke win c w =
     (case call_member win (On_prototype (body c)) w of
        Inl e \<Rightarrow> (Inl e, w)
      | Inr w' \<Rightarrow> (Inr (), w'))"

text \<open>
  The callback \<open>close\<close> chains on its request: \<open>Object.setPrototypeOf(this, null)\<close>.
  \<open>close_settled rpc win\<close> is the handle and the promise returned by \<open>close\<close> once the
  request has settled as \<open>rpc\<close>.
\<close>

definition close_then :: "Window \<Rightarrow> Window" where
  "close_then win = win\<lparr>proto := None\<rparr>"

definition close_settled :: "('a, 'e) promise \<Rightarrow> Window \<Rightarrow> Window \<times> (unit, 'e) promise" where
  "close_settled rpc win =
     (case rpc of
        Pending \<Rightarrow> (win, Pending)
      | Fulfilled reply \<Rightarrow> (close_then win, Fulfilled ())
      | Rejected e \<Rightarrow> (win, Rejected e))"

subsection \<open>The other methods of the class\<close>

text \<open>
  The methods of the class that do not go through \<open>sendAction\<close>, each as a function of
  the handle and of what it is called with or reads. \<open>createWindow\<close> is the function of
  the handshake above. \<open>getWebWindow\<close> asks the environment for the window object of the
  handle's identity, and \<open>getParentWindow\<close> asks the parent application for its window:
  the environment's and the application's part are parameters. \<open>isMainWindow\<close> compares
  the uuid and the name of \<open>me\<close>, the identity the transport holds.
\<close>

definition createWindow_member ::
  "Window \<Rightarrow> (string \<times> nat) list \<times> bool \<times> addr \<times> heap \<Rightarrow> 'e creation" where
  "createWindow_member win args =
     (case args of (ls, acc, options, h) \<Rightarrow> createWindow win ls acc options h)"

definition getWebWindow :: "Window \<Rightarrow> (Identity \<Rightarrow> 'w) \<Rightarrow> 'w" where
  "getWebWindow win environment_getWebWindow = environment_getWebWindow (identity win)"

definition isMainWindow :: "Window \<Rightarrow> Identity \<Rightarrow> bool" where
  "isMainWindow win me = (Some (uuid me) = name me)"

record Application =
  application_identity :: Identity

definition getParentApplication :: "Window \<Rightarrow> unit \<Rightarrow> Application" where
  "getParentApplication win u = \<lparr>application_identity = identity win\<rparr>"

definition getParentWindow :: "Window \<Rightarrow> (Application \<Rightarrow> 'r) \<Rightarrow> 'r" where
  "getParentWindow win getWindow = getWindow \<lparr>application_identity = identity win\<rparr>"

text \<open>
  The registry's \<open>on\<close> as a member of the handle, called with the topic, the callback
  and the registrations so far.
\<close>

definition on_member ::
  "Window \<Rightarrow> string \<times> listener \<times> (string \<times> listener) list \<Rightarrow> (string \<times> listener) list" where
  "on_member win args = (case args of (topic, l, ls) \<Rightarrow> on topic l ls)"

section \<open>Window groups\<close>

text \<open>An entry of the runtime's reply to \<open>get-window-group\<close>.\<close>

record GroupWindowIdentity = Identity +
  isExternalWindow :: bool

record ExternalWindow =
  external_identity :: Identity

definition new_ExternalWindow :: "Identity \<Rightarrow> ExternalWindow" where
  "new_ExternalWindow ident = \<lparr>external_identity = ident\<rparr>"

datatype group_member = WindowMember Window | ExternalWindowMember ExternalWindow

fun member_identity :: "group_member \<Rightarrow> Identity" where
  "member_identity (WindowMember win) = identity win"
| "member_identity (ExternalWindowMember ext) = external_identity ext"

definition windowListFromNameList :: "GroupWindowIdentity list \<Rightarrow> group_member list" where
  "windowListFromNameList identityList =
     map (\<lambda>entry.
            if isExternalWindow entry
            then ExternalWindowMember (new_ExternalWindow \<lparr>uuid = uuid entry, name = None\<rparr>)
            else WindowMember (new_Window \<lparr>uuid = uuid entry, name = name entry\<rparr>))
         identityList"






section \<open>Values used in the examples\<close>

abbreviation module_me :: Identity where
  "module_me \<equiv> \<lparr>uuid = ''app'', name = Some ''main''\<rparr>"

abbreviation only_name :: heap where
  "only_name \<equiv> (\<lambda>a. \<lparr>optName = ''w1'', url = None, waitForPageLoad = None, autoShow = None\<rparr>)"

abbreviation window_w1 :: Window where
  "window_w1 \<equiv> \<lparr>identity = \<lparr>uuid = ''app'', name = Some ''w1''\<rparr>, proto = Some Window_prototype\<rparr>"

abbreviation page_loaded :: Response where
  "page_loaded \<equiv>
     \<lparr>success = True,
      data = \<lparr>message = [], httpResponseCode = Some 200, apiInjected = Some True,
               networkErrorCode = None, stack = None\<rparr>\<rparr>"

abbreviation page_failed :: Response where
  "page_failed \<equiv>
     \<lparr>success = False,
      data = \<lparr>message = ''ERR_NAME_NOT_RESOLVED'', httpResponseCode = None, apiInjected = None,
               networkErrorCode = Some (-105), stack = Some ''at load''\<rparr>\<rparr>"

section \<open>Lemmas about the handshake\<close>

lemma settle_simps [simp]:
  "settle Pending v = v" "settle (Fulfilled a) v = Fulfilled a" "settle (Rejected e) v = Rejected e"
  by (simp_all add: settle_def)

lemma fireConstructor_pageResponse:
  "pageResponse (fireConstructor r st) = settle (pageResponse st) (Fulfilled (page_outcome r))"
  by (simp add: fireConstructor_def resolve_pageResponse_def removeListener_def page_outcome_def Let_def)

lemma fireConstructor_listeners:
  "listeners (fireConstructor r st) = remove1 (CONSTRUCTOR_CB_TOPIC, FireConstructor) (listeners st)"
  by (simp add: fireConstructor_def resolve_pageResponse_def removeListener_def Let_def)

lemma fireConstructor_frame:
  "this (fireConstructor r st) = this st"
  "heap (fireConstructor r st) = heap st"
  "createChildWindow_calls (fireConstructor r st) = createChildWindow_calls st"
  "windowCreation (fireConstructor r st) = windowCreation st"
  "joined (fireConstructor r st) = joined st"
  "result (fireConstructor r st) = result st"
  "webWindow_accessible (fireConstructor r st) = webWindow_accessible st"
  "openerSuccessCBCalled (fireConstructor r st) = openerSuccessCBCalled st"
  by (simp_all add: fireConstructor_def resolve_pageResponse_def removeListener_def Let_def)

lemma fireConstructor_trace:
  "trace (fireConstructor r st) =
     trace st @ [RemoveListener CONSTRUCTOR_CB_TOPIC FireConstructor, Resolve (page_outcome r)]"
  by (simp add: fireConstructor_def resolve_pageResponse_def removeListener_def page_outcome_def Let_def)

lemma invoke_frame:
  "this (invoke_listener r l st) = this st"
  "heap (invoke_listener r l st) = heap st"
  "createChildWindow_calls (invoke_listener r l st) = createChildWindow_calls st"
  "windowCreation (invoke_listener r l st) = windowCreation st"
  "joined (invoke_listener r l st) = joined st"
  "result (invoke_listener r l st) = result st"
  "webWindow_accessible (invoke_listener r l st) = webWindow_accessible st"
  "openerSuccessCBCalled (invoke_listener r l st) = openerSuccessCBCalled st"
  by (cases l; simp add: fireConstructor_frame)+

lemma fold_invoke_frame:
  "this (fold (invoke_listener r) fs st) = this st \<and>
   heap (fold (invoke_listener r) fs st) = heap st \<and>
   createChildWindow_calls (fold (invoke_listener r) fs st) = createChildWindow_calls st \<and>
   windowCreation (fold (invoke_listener r) fs st) = windowCreation st \<and>
   joined (fold (invoke_listener r) fs st) = joined st \<and>
   result (fold (invoke_listener r) fs st) = result st \<and>
   webWindow_accessible (fold (invoke_listener r) fs st) = webWindow_accessible st \<and>
   openerSuccessCBCalled (fold (invoke_listener r) fs st) = openerSuccessCBCalled st"
  by (induction fs arbitrary: st) (simp_all add: invoke_frame)

lemma emit_frame:
  "this (emit t r st) = this st"
  "heap (emit t r st) = heap st"
  "createChildWindow_calls (emit t r st) = createChildWindow_calls st"
  "windowCreation (emit t r st) = windowCreation st"
  "joined (emit t r st) = joined st"
  "result (emit t r st) = result st"
  "webWindow_accessible (emit t r st) = webWindow_accessible st"
  "openerSuccessCBCalled (emit t r st) = openerSuccessCBCalled st"
  by (simp_all add: emit_def fold_invoke_frame)

lemma fold_users:
  "pageResponse (fold (invoke_listener r) (map snd (filter (\<lambda>tl. fst tl = t) (user_listeners ls))) st) = pageResponse st \<and>
   listeners (fold (invoke_listener r) (map snd (filter (\<lambda>tl. fst tl = t) (user_listeners ls))) st) = listeners st \<and>
   trace (fold (invoke_listener r) (map snd (filter (\<lambda>tl. fst tl = t) (user_listeners ls))) st) =
     trace st @ map (\<lambda>tn. Invoke (UserListener (snd tn))) (filter (\<lambda>tn. fst tn = t) ls)"
  by (induction ls arbitrary: st) (simp_all add: user_listeners_def)

lemma FC_notin_users: "(t, FireConstructor) \<notin> set (user_listeners ls)"
  by (auto simp: user_listeners_def)

lemma emit_registered:
  assumes "listeners st = on CONSTRUCTOR_CB_TOPIC FireConstructor (user_listeners ls)"
  shows "pageResponse (emit t r st) =
           (if t = CONSTRUCTOR_CB_TOPIC then settle (pageResponse st) (Fulfilled (page_outcome r))
            else pageResponse st)"
    and "listeners (emit t r st) =
           (if t = CONSTRUCTOR_CB_TOPIC then user_listeners ls
            else on CONSTRUCTOR_CB_TOPIC FireConstructor (user_listeners ls))"
    and "trace (emit t r st) =
           trace st @ map (\<lambda>tn. Invoke (UserListener (snd tn))) (filter (\<lambda>tn. fst tn = t) ls) @
           (if t = CONSTRUCTOR_CB_TOPIC
            then [Invoke FireConstructor, RemoveListener CONSTRUCTOR_CB_TOPIC FireConstructor,
                  Resolve (page_outcome r)]
            else [])"
  using assms
  by (simp_all add: emit_def on_def fold_users
        fireConstructor_pageResponse fireConstructor_listeners fireConstructor_trace
        remove1_append FC_notin_users)

lemma emit_removed:
  assumes "listeners st = user_listeners ls"
  shows "pageResponse (emit t r st) = pageResponse st"
    and "listeners (emit t r st) = user_listeners ls"
    and "trace (emit t r st) =
           trace st @ map (\<lambda>tn. Invoke (UserListener (snd tn))) (filter (\<lambda>tn. fst tn = t) ls)"
  using assms
  by (simp_all add: emit_def fold_users)

lemma react_frame:
  "this (react st) = this st"
  "heap (react st) = heap st"
  "listeners (react st) = listeners st"
  "trace (react st) = trace st"
  "pageResponse (react st) = pageResponse st"
  "windowCreation (react st) = windowCreation st"
  "createChildWindow_calls (react st) = createChildWindow_calls st"
  by (simp_all add: react_def then_callback_def catch_callback_def Let_def split: promise.splits)

lemma react_joined:
  "joined (react st) = settle (joined st) (promise_all (pageResponse st) (windowCreation st))"
  by (simp add: react_def then_callback_def catch_callback_def Let_def split: promise.splits)

lemma react_result:
  "joined st = Pending \<Longrightarrow> result st = Pending \<Longrightarrow>
   result (react st) = join_outcome (this st) (promise_all (pageResponse st) (windowCreation st))"
  by (simp add: react_def then_callback_def catch_callback_def join_outcome_def Let_def split: promise.splits)

lemma react_settled:
  "joined st \<noteq> Pending \<Longrightarrow> react st = st"
  by (simp add: react_def split: promise.splits)

lemma run_Nil: "run [] st = st"
  by (simp add: run_def)

lemma run_snoc: "run (evs @ [e]) st = step e (run evs st)"
  by (simp add: run_def)

lemma first_page_snoc:
  "first_page (evs @ [e]) = (case first_page evs of Some r \<Rightarrow> Some r | None \<Rightarrow> first_page [e])"
  by (induction evs rule: first_page.induct) simp_all

lemma first_rpc_snoc:
  "first_rpc (evs @ [e]) = settle (first_rpc evs) (first_rpc [e])"
  by (induction evs rule: first_rpc.induct) simp_all

lemma settle_Pending [simp]: "settle p Pending = p"
  by (cases p) simp_all

lemma settle_promise_all:
  assumes "\<And>e. P \<noteq> Rejected e" "\<And>e. p' \<noteq> Rejected e"
  shows "settle (promise_all P W) (promise_all (settle P p') (settle W w')) =
         promise_all (settle P p') (settle W w')"
  using assms by (cases P; cases W; cases p'; cases w') simp_all

lemma react_coherent:
  assumes j: "joined st1 = promise_all P W"
    and r: "result st1 = join_outcome (this st1) (joined st1)"
    and p: "pageResponse st1 = settle P p'"
    and w: "windowCreation st1 = settle W w'"
    and nr: "\<And>e. P \<noteq> Rejected e" "\<And>e. p' \<noteq> Rejected e"
  shows "joined (react st1) = promise_all (pageResponse st1) (windowCreation st1)"
    and "result (react st1) = join_outcome (this st1) (joined (react st1))"
proof -
  show jj: "joined (react st1) = promise_all (pageResponse st1) (windowCreation st1)"
    by (simp add: react_joined j p w settle_promise_all nr)
  show "result (react st1) = join_outcome (this st1) (joined (react st1))"
  proof (cases "joined st1 = Pending")
    case True
    then have "result st1 = Pending" using r by (simp add: join_outcome_def)
    with True show ?thesis by (simp add: react_result jj)
  next
    case False
    then show ?thesis using r by (simp add: react_settled)
  qed
qed

lemma filter_user_invocations:
  "filter handshake_effect (map (\<lambda>tn. Invoke (UserListener (snd tn))) xs) = []"
  by (induction xs) simp_all

lemma reached_init: "reached win ls [] (createWindow win ls acc ref h)"
  by (simp add: reached_def createWindow_def Let_def join_outcome_def)

lemma reached_step:
  assumes "reached win ls evs st"
  shows "reached win ls (evs @ [e]) (step e st)"
proof -
  from assms have t: "this st = win"
    and j: "joined st = promise_all (pageResponse st) (windowCreation st)"
    and r: "result st = join_outcome (this st) (joined st)"
    and w: "windowCreation st = first_rpc evs"
    and p: "pageResponse st = (case first_page evs of None \<Rightarrow> Pending | Some r \<Rightarrow> Fulfilled (page_outcome r))"
    and tr: "filter handshake_effect (trace st) =
       (case first_page evs of
          None \<Rightarrow> []
        | Some r \<Rightarrow>
            [Invoke FireConstructor, RemoveListener CONSTRUCTOR_CB_TOPIC FireConstructor,
             Resolve (page_outcome r)])"
    and l: "listeners st = (case first_page evs of None \<Rightarrow> on CONSTRUCTOR_CB_TOPIC FireConstructor (user_listeners ls)
                     | Some r \<Rightarrow> user_listeners ls)"
    by (simp_all add: reached_def)
  have nr: "\<And>e. pageResponse st \<noteq> Rejected e"
    using p by (simp split: option.splits)
  show ?thesis
  proof (cases e)
    case (Notify topic response)
    let ?st1 = "emit topic response st"
    have p1: "pageResponse ?st1 = settle (pageResponse st) (if topic = CONSTRUCTOR_CB_TOPIC then Fulfilled (page_outcome response) else Pending)"
      and l1: "listeners ?st1 = (case first_page (evs @ [e]) of None \<Rightarrow> on CONSTRUCTOR_CB_TOPIC FireConstructor (user_listeners ls)
                     | Some r \<Rightarrow> user_listeners ls)"
      and tr1: "filter handshake_effect (trace ?st1) =
       (case first_page (evs @ [e]) of
          None \<Rightarrow> []
        | Some r \<Rightarrow>
            [Invoke FireConstructor, RemoveListener CONSTRUCTOR_CB_TOPIC FireConstructor,
             Resolve (page_outcome r)])"
      using p l tr Notify
      by (auto simp: first_page_snoc emit_registered emit_removed filter_user_invocations split: option.splits)
    have c: "joined (react ?st1) = promise_all (pageResponse ?st1) (windowCreation ?st1)"
            "result (react ?st1) = join_outcome (this ?st1) (joined (react ?st1))"
      proof -
      show "joined (react ?st1) = promise_all (pageResponse ?st1) (windowCreation ?st1)"
        by (rule react_coherent(1)[where P="pageResponse st" and W="windowCreation st" and w'=Pending
            and p'="if topic = CONSTRUCTOR_CB_TOPIC then Fulfilled (page_outcome response) else Pending"]) (simp_all add: emit_frame j r p1 nr)
      show "result (react ?st1) = join_outcome (this ?st1) (joined (react ?st1))"
        by (rule react_coherent(2)[where P="pageResponse st" and W="windowCreation st" and w'=Pending
            and p'="if topic = CONSTRUCTOR_CB_TOPIC then Fulfilled (page_outcome response) else Pending"]) (simp_all add: emit_frame j r p1 nr)
    qed
    show ?thesis
      using c p1 l1 tr1 t w p Notify
      by (simp add: reached_def react_frame emit_frame first_page_snoc first_rpc_snoc split: option.splits)
  next
    case RpcResolve
    let ?st1 = "st\<lparr>windowCreation := settle (windowCreation st) (Fulfilled ())\<rparr>"
    have c: "joined (react ?st1) = promise_all (pageResponse ?st1) (windowCreation ?st1)"
            "result (react ?st1) = join_outcome (this ?st1) (joined (react ?st1))"
      proof -
      show "joined (react ?st1) = promise_all (pageResponse ?st1) (windowCreation ?st1)"
        by (rule react_coherent(1)[where P="pageResponse st" and W="windowCreation st" and w'="Fulfilled ()"
            and p'=Pending]) (simp_all add: j r nr)
      show "result (react ?st1) = join_outcome (this ?st1) (joined (react ?st1))"
        by (rule react_coherent(2)[where P="pageResponse st" and W="windowCreation st" and w'="Fulfilled ()"
            and p'=Pending]) (simp_all add: j r nr)
    qed
    show ?thesis
      using c t w p l tr RpcResolve
      by (simp add: reached_def react_frame first_page_snoc first_rpc_snoc split: option.splits)
  next
    case (RpcReject x)
    let ?st1 = "st\<lparr>windowCreation := settle (windowCreation st) (Rejected x)\<rparr>"
    have c: "joined (react ?st1) = promise_all (pageResponse ?st1) (windowCreation ?st1)"
            "result (react ?st1) = join_outcome (this ?st1) (joined (react ?st1))"
      proof -
      show "joined (react ?st1) = promise_all (pageResponse ?st1) (windowCreation ?st1)"
        by (rule react_coherent(1)[where P="pageResponse st" and W="windowCreation st" and w'="Rejected x"
            and p'=Pending]) (simp_all add: j r nr)
      show "result (react ?st1) = join_outcome (this ?st1) (joined (react ?st1))"
        by (rule react_coherent(2)[where P="pageResponse st" and W="windowCreation st" and w'="Rejected x"
            and p'=Pending]) (simp_all add: j r nr)
    qed
    show ?thesis
      using c t w p l tr RpcReject
      by (simp add: reached_def react_frame first_page_snoc first_rpc_snoc split: option.splits)
  qed
qed

lemma reached_run: "reached win ls evs (run evs (createWindow win ls acc ref h))"
  by (induction evs rule: rev_induct) (simp_all add: run_Nil run_snoc reached_init reached_step)

lemma first_page_mem: "first_page evs = Some r \<Longrightarrow> Notify CONSTRUCTOR_CB_TOPIC r \<in> set evs"
  by (induction evs rule: first_page.induct) (auto split: if_splits)

lemma first_rpc_mem: "first_rpc evs = Fulfilled u \<Longrightarrow> RpcResolve \<in> set evs"
  by (induction evs rule: first_rpc.induct) auto

lemma first_rpc_skip: "\<forall>ev \<in> set ns. is_Notify ev \<Longrightarrow> first_rpc (ns @ evs) = first_rpc evs"
  by (induction ns rule: first_rpc.induct) simp_all

lemma heap_step: "heap (step e st) = heap st"
  by (cases e) (simp_all add: react_frame emit_frame)

lemma heap_run: "heap (run evs st) = heap st"
  by (induction evs arbitrary: st) (simp_all add: run_def heap_step)

lemma reached_create:
  "reached (new_Window \<lparr>uuid = uuid me, name = Some (optName (h options))\<rparr>) ls evs
     (run evs (create me ls acc options h))"
  by (simp add: create_def reached_run)

lemmas eval_defs = run_def create_def createWindow_def set_defaults_def on_def user_listeners_def
  react_def emit_def fireConstructor_def removeListener_def resolve_pageResponse_def
  then_callback_def catch_callback_def new_Window_def Let_def CONSTRUCTOR_CB_TOPIC_def

section \<open>Properties of the creation handshake\<close>

text \<open>
  C1. \<open>create\<close> resolves only after both completion sources have settled. Whatever the
  history of events, if the returned promise is fulfilled then the creation request has
  resolved and a constructor-callback notification reporting success has been delivered.
  If the request has resolved and no such notification has been delivered yet, the
  promise is still pending, and delivering a successful notification then fulfils it
  with the handle of the new window.
\<close>

theorem create_joint_completion:
  fixes evs evs' :: "'e event list"
  shows
  "(result (run evs (create me ls acc options h)) = Fulfilled w \<longrightarrow>
      RpcResolve \<in> set evs \<and> (\<exists>r. Notify CONSTRUCTOR_CB_TOPIC r \<in> set evs \<and> success r)) \<and>
   (first_rpc evs' = Fulfilled () \<and> first_page evs' = None \<longrightarrow>
      result (run evs' (create me ls acc options h)) = Pending \<and>
      (success r' \<longrightarrow>
         result (run (evs' @ [Notify CONSTRUCTOR_CB_TOPIC r']) (create me ls acc options h)) =
           Fulfilled (new_Window \<lparr>uuid = uuid me, name = Some (optName (h options))\<rparr>)))"
proof (intro conjI impI)
  let ?win = "new_Window \<lparr>uuid = uuid me, name = Some (optName (h options))\<rparr>"
  {
    assume f: "result (run evs (create me ls acc options h)) = Fulfilled w"
    have r: "reached ?win ls evs (run evs (create me ls acc options h))"
      by (rule reached_create)
    from r f obtain r0 where "first_page evs = Some r0" "success r0" "first_rpc evs = Fulfilled ()"
      by (cases "first_page evs"; cases "first_rpc evs")
         (auto simp: reached_def join_outcome_def page_outcome_def split: if_splits)
    then show "RpcResolve \<in> set evs" "\<exists>r. Notify CONSTRUCTOR_CB_TOPIC r \<in> set evs \<and> success r"
      by (auto dest: first_page_mem first_rpc_mem)
  }
  assume a: "first_rpc evs' = Fulfilled () \<and> first_page evs' = None"
  have r': "reached ?win ls evs' (run evs' (create me ls acc options h))"
    by (rule reached_create)
  with a show "result (run evs' (create me ls acc options h)) = Pending"
    by (simp add: reached_def join_outcome_def)
  assume s: "success r'"
  have "reached ?win ls (evs' @ [Notify CONSTRUCTOR_CB_TOPIC r'])
          (run (evs' @ [Notify CONSTRUCTOR_CB_TOPIC r']) (create me ls acc options h))"
    by (rule reached_create)
  with a s show "result (run (evs' @ [Notify CONSTRUCTOR_CB_TOPIC r']) (create me ls acc options h)) =
           Fulfilled ?win"
    by (simp add: reached_def join_outcome_def page_outcome_def first_page_snoc first_rpc_snoc)
qed

theorem create_joint_completion_witness:
  "result (run [RpcResolve, Notify CONSTRUCTOR_CB_TOPIC page_loaded]
             (create module_me [] False 0 only_name :: string creation)) = Fulfilled window_w1 \<and>
   first_rpc [RpcResolve :: string event] = Fulfilled () \<and>
   first_page [RpcResolve :: string event] = None \<and>
   success page_loaded \<and>
   result (run [RpcResolve] (create module_me [] False 0 only_name :: string creation)) = Pending"
proof -
  have h1: "result (run [RpcResolve, Notify CONSTRUCTOR_CB_TOPIC page_loaded]
              (create module_me [] False 0 only_name :: string creation)) = Fulfilled window_w1"
    by (simp add: eval_defs)
  have h2: "first_rpc [RpcResolve :: string event] = Fulfilled () \<and>
            first_page [RpcResolve :: string event] = None"
    by simp
  show ?thesis
    using h1 h2
      create_joint_completion [where evs = "[RpcResolve :: string event,
          Notify CONSTRUCTOR_CB_TOPIC page_loaded]"
        and me = module_me and ls = "[]" and acc = False and options = 0 and h = only_name
        and w = window_w1 and evs' = "[RpcResolve :: string event]" and r' = page_loaded]
    by simp
qed

text \<open>
  C2. If the creation request rejects, \<open>create\<close> rejects with exactly that rejection
  value, whatever notifications were delivered before the rejection and whatever events
  follow it.
\<close>

theorem create_rejects_with_rpc_rejection:
  assumes "\<forall>ev \<in> set ns. is_Notify ev"
  shows "result (run (ns @ RpcReject e # evs) (create me ls acc options h)) =
           Rejected (RpcRejection e)"
proof -
  have "reached (new_Window \<lparr>uuid = uuid me, name = Some (optName (h options))\<rparr>) ls
          (ns @ RpcReject e # evs) (run (ns @ RpcReject e # evs) (create me ls acc options h))"
    by (rule reached_create)
  moreover have "first_rpc (ns @ RpcReject e # evs) = Rejected e"
    using assms by (simp add: first_rpc_skip)
  ultimately show ?thesis
    by (cases "first_page (ns @ RpcReject e # evs)") (simp_all add: reached_def join_outcome_def)
qed

theorem create_rejects_with_rpc_rejection_witness:
  "is_Notify (Notify CONSTRUCTOR_CB_TOPIC page_failed :: string event) \<and>
   result (run ([Notify CONSTRUCTOR_CB_TOPIC page_failed] @ RpcReject ''denied'' #
                [Notify CONSTRUCTOR_CB_TOPIC page_loaded])
             (create module_me [] False 0 only_name)) = Rejected (RpcRejection ''denied'')"
  using create_rejects_with_rpc_rejection [where ns = "[Notify CONSTRUCTOR_CB_TOPIC page_failed]"
      and e = "''denied''" and evs = "[Notify CONSTRUCTOR_CB_TOPIC page_loaded]"
      and me = module_me and ls = "[]" and acc = False and options = 0 and h = only_name]
  by simp

text \<open>
  C3. If the creation request resolves and the first constructor-callback notification
  reports \<open>success: false\<close>, \<open>create\<close> rejects with the object built from that
  notification, which carries its \<open>message\<close>, \<open>networkErrorCode\<close> and \<open>stack\<close>; the two
  may come in either order.
\<close>

theorem create_rejects_with_page_failure:
  assumes "first_rpc evs = Fulfilled ()" and "first_page evs = Some r" and "\<not> success r"
  shows "result (run evs (create me ls acc options h)) =
           Rejected (PageRejection
             \<lparr>pr_message = message (data r),
              pr_cbPayload = FailurePayload (message (data r)) (networkErrorCode (data r)) (stack (data r)),
              pr_success = False\<rparr>)"
proof -
  have "reached (new_Window \<lparr>uuid = uuid me, name = Some (optName (h options))\<rparr>) ls evs
          (run evs (create me ls acc options h))"
    by (rule reached_create)
  with assms show ?thesis
    by (simp add: reached_def join_outcome_def page_outcome_def)
qed

theorem create_rejects_with_page_failure_witness:
  "first_rpc [Notify CONSTRUCTOR_CB_TOPIC page_failed, RpcResolve :: string event] = Fulfilled () \<and>
   first_page [Notify CONSTRUCTOR_CB_TOPIC page_failed, RpcResolve :: string event] = Some page_failed \<and>
   success page_failed = False \<and>
   result (run [Notify CONSTRUCTOR_CB_TOPIC page_failed, RpcResolve :: string event]
             (create module_me [] False 0 only_name)) =
     Rejected (PageRejection
       \<lparr>pr_message = ''ERR_NAME_NOT_RESOLVED'',
        pr_cbPayload = FailurePayload ''ERR_NAME_NOT_RESOLVED'' (Some (-105)) (Some ''at load''),
        pr_success = False\<rparr>)"
  using create_rejects_with_page_failure [where evs = "[Notify CONSTRUCTOR_CB_TOPIC page_failed,
        RpcResolve :: string event]" and r = page_failed
      and me = module_me and ls = "[]" and acc = False and options = 0 and h = only_name]
  by (simp add: CONSTRUCTOR_CB_TOPIC_def)

text \<open>
  C4. The listener \<open>fireConstructor\<close> fires at most once per creation attempt, however
  many times the notification is delivered. Only the first delivery on the
  constructor-callback topic calls it; in that call the registration is removed before
  \<open>pageResponse\<close> is resolved; \<open>pageResponse\<close> holds the outcome of that first
  notification from then on; and the listener is registered exactly as long as no such
  notification has been delivered.
\<close>

theorem fireConstructor_fires_at_most_once:
  "count_list (trace (run evs (createWindow win ls acc options h))) (Invoke FireConstructor) \<le> 1 \<and>
   filter handshake_effect (trace (run evs (createWindow win ls acc options h))) =
     (case first_page evs of
        None \<Rightarrow> []
      | Some r \<Rightarrow> [Invoke FireConstructor, RemoveListener CONSTRUCTOR_CB_TOPIC FireConstructor,
                   Resolve (page_outcome r)]) \<and>
   pageResponse (run evs (createWindow win ls acc options h)) =
     (case first_page evs of None \<Rightarrow> Pending | Some r \<Rightarrow> Fulfilled (page_outcome r)) \<and>
   ((CONSTRUCTOR_CB_TOPIC, FireConstructor) \<in> set (listeners (run evs (createWindow win ls acc options h)))
      \<longleftrightarrow> first_page evs = None)"
proof -
  let ?st = "run evs (createWindow win ls acc options h)"
  have r: "reached win ls evs ?st" by (rule reached_run)
  then have f: "filter handshake_effect (trace ?st) =
     (case first_page evs of
        None \<Rightarrow> []
      | Some r \<Rightarrow> [Invoke FireConstructor, RemoveListener CONSTRUCTOR_CB_TOPIC FireConstructor,
                   Resolve (page_outcome r)])"
    by (simp add: reached_def)
  have "filter ((=) (Invoke FireConstructor)) (trace ?st) =
        filter ((=) (Invoke FireConstructor)) (filter handshake_effect (trace ?st))"
    by (auto intro: filter_cong)
  then have "count_list (trace ?st) (Invoke FireConstructor) \<le> 1"
    by (simp add: count_list_eq_length_filter f split: option.splits)
  moreover have "pageResponse ?st =
     (case first_page evs of None \<Rightarrow> Pending | Some r \<Rightarrow> Fulfilled (page_outcome r))"
    using r by (simp add: reached_def)
  moreover have "(CONSTRUCTOR_CB_TOPIC, FireConstructor) \<in> set (listeners ?st) \<longleftrightarrow> first_page evs = None"
    using r by (simp add: reached_def on_def FC_notin_users split: option.splits)
  ultimately show ?thesis using f by simp
qed

theorem fireConstructor_fires_at_most_once_witness:
  "count_list
     (trace (run [Notify CONSTRUCTOR_CB_TOPIC page_loaded, Notify CONSTRUCTOR_CB_TOPIC page_loaded]
        (createWindow window_w1 [(CONSTRUCTOR_CB_TOPIC, 7)] False 0 only_name :: string creation)))
     (Invoke FireConstructor) \<le> 1 \<and>
   filter handshake_effect
     (trace (run [Notify CONSTRUCTOR_CB_TOPIC page_loaded, Notify CONSTRUCTOR_CB_TOPIC page_loaded]
        (createWindow window_w1 [(CONSTRUCTOR_CB_TOPIC, 7)] False 0 only_name :: string creation))) =
     [Invoke FireConstructor, RemoveListener CONSTRUCTOR_CB_TOPIC FireConstructor,
      Resolve \<lparr>pr_message = [], pr_cbPayload = SuccessPayload (Some 200) (Some True),
               pr_success = True\<rparr>]"
  using fireConstructor_fires_at_most_once [where evs = "[Notify CONSTRUCTOR_CB_TOPIC page_loaded,
        Notify CONSTRUCTOR_CB_TOPIC page_loaded] :: string event list" and win = window_w1
      and ls = "[(CONSTRUCTOR_CB_TOPIC, 7)]" and acc = False and options = 0 and h = only_name]
  by (simp add: page_outcome_def)

section \<open>The options object\<close>

text \<open>
  C10. \<open>create\<close> mutates the caller's options object in place. Where \<open>waitForPageLoad\<close>
  or \<open>autoShow\<close> is undefined in the object passed in, the object itself holds \<open>false\<close>,
  respectively \<open>true\<close>, when \<open>create\<close> returns; its \<open>name\<close> and \<open>url\<close> are as before;
  \<open>createChildWindow\<close> was called with that same object, already holding the defaults;
  and no later event of the handshake changes the store.
\<close>

theorem create_mutates_options_in_place:
  fixes evs :: "'e event list"
  shows
  "(waitForPageLoad (h options) = None \<longrightarrow>
      waitForPageLoad (heap (create me ls acc options h :: 'e creation) options) = Some False) \<and>
   (autoShow (h options) = None \<longrightarrow>
      autoShow (heap (create me ls acc options h :: 'e creation) options) = Some True) \<and>
   optName (heap (create me ls acc options h :: 'e creation) options) = optName (h options) \<and>
   url (heap (create me ls acc options h :: 'e creation) options) = url (h options) \<and>
   createChildWindow_calls (create me ls acc options h :: 'e creation) =
     [(options, heap (create me ls acc options h :: 'e creation) options)] \<and>
   heap (run evs (create me ls acc options h)) = heap (create me ls acc options h :: 'e creation)"
  by (simp add: heap_run create_def createWindow_def set_defaults_def Let_def)

theorem create_mutates_options_in_place_witness:
  "waitForPageLoad (only_name 0) = None \<and> autoShow (only_name 0) = None \<and>
   waitForPageLoad (heap (create module_me [] False 0 only_name :: string creation) 0) = Some False \<and>
   autoShow (heap (create module_me [] False 0 only_name :: string creation) 0) = Some True"
  using create_mutates_options_in_place [where h = only_name and options = 0 and me = module_me
      and ls = "[]" and acc = False and evs = "[] :: string event list"]
  by simp

text \<open>
  C5, amended. The options value \<open>createChildWindow\<close> is called with has
  \<open>waitForPageLoad\<close> and \<open>autoShow\<close> materialised: each holds the caller's value where
  one was given, and the default (\<open>false\<close>, respectively \<open>true\<close>) where it was undefined.
  \<open>url\<close> is passed as the caller gave it: no default is written for it, so an omitted
  \<open>url\<close> reaches the call undefined.
\<close>

theorem createChildWindow_receives_local_defaults:
  "createChildWindow_calls (create me ls acc options h :: 'e creation) =
     [(options,
       \<lparr>optName = optName (h options),
        url = url (h options),
        waitForPageLoad = Some (case waitForPageLoad (h options) of None \<Rightarrow> False | Some b \<Rightarrow> b),
        autoShow = Some (case autoShow (h options) of None \<Rightarrow> True | Some b \<Rightarrow> b)\<rparr>)]"
  by (cases "h options")
     (simp add: create_def createWindow_def set_defaults_def Let_def split: option.splits)

theorem createChildWindow_receives_local_defaults_witness:
  "createChildWindow_calls (create module_me [] False 0 only_name :: string creation) =
     [(0, \<lparr>optName = ''w1'', url = None, waitForPageLoad = Some False, autoShow = Some True\<rparr>)]"
  using createChildWindow_receives_local_defaults [where h = only_name and options = 0
      and me = module_me and ls = "[]" and acc = False, where ?'e = string]
  by simp

text \<open>
  As first stated, with \<open>url\<close> among the fields defaulted locally, the property fails:
  for \<open>create({name: "w1"})\<close> the \<open>url\<close> that \<open>createChildWindow\<close> sees is undefined, not
  \<open>"about:blank"\<close>.
\<close>

theorem create_url_default_counterexample:
  "url (only_name 0) = None \<and>
   map (\<lambda>c. url (snd c))
     (createChildWindow_calls (create module_me [] False 0 only_name :: string creation)) = [None] \<and>
   map (\<lambda>c. url (snd c))
     (createChildWindow_calls (create module_me [] False 0 only_name :: string creation)) \<noteq>
     [Some ''about:blank'']"
  by (simp add: create_def createWindow_def set_defaults_def Let_def)

section \<open>A closed handle\<close>

text \<open>
  C6, amended. After \<open>close()\<close> has resolved on a handle, every later call on that handle
  of a method that is reached through the prototype link throws a \<open>TypeError\<close> before
  anything of the method runs. For the operations that go through \<open>sendAction\<close> the
  transport is left as it was; the same failure holds for every other function on the
  chain, among them the other methods the class declares (\<open>createWindow\<close>,
  \<open>getWebWindow\<close>, \<open>isMainWindow\<close>, \<open>getParentApplication\<close>, \<open>getParentWindow\<close>) and the
  methods inherited through the chain. A function that the object itself holds is not
  affected by \<open>close\<close>: it is still called.
\<close>

theorem closed_handle_calls_throw:
  assumes "snd (close_settled rpc win) = Fulfilled ()"
  shows "invoke (fst (close_settled rpc win)) c w = (Inl TypeError, w) \<and>
         call_member (fst (close_settled rpc win)) (On_prototype f) args = Inl TypeError \<and>
         call_member (fst (close_settled rpc win)) (On_object g) args' =
           Inr (g (fst (close_settled rpc win)) args')"
  using assms
  by (cases rpc)
     (simp_all add: close_settled_def close_then_def invoke_def call_member_def get_member_def)

theorem closed_handle_calls_throw_witness:
  "snd (close_settled (Fulfilled () :: (unit, string) promise) window_w1) = Fulfilled () \<and>
   invoke (fst (close_settled (Fulfilled () :: (unit, string) promise) window_w1)) (Close None)
     \<lparr>sent = []\<rparr> = (Inl TypeError, \<lparr>sent = []\<rparr>) \<and>
   call_member (fst (close_settled (Fulfilled () :: (unit, string) promise) window_w1))
     (On_prototype (createWindow_member :: Window \<Rightarrow> _ \<Rightarrow> string creation))
     ([], False, 0, only_name) = Inl TypeError \<and>
   call_member (fst (close_settled (Fulfilled () :: (unit, string) promise) window_w1))
     (On_prototype getWebWindow) (\<lambda>i :: Identity. uuid i) = Inl TypeError \<and>
   call_member (fst (close_settled (Fulfilled () :: (unit, string) promise) window_w1))
     (On_prototype isMainWindow) module_me = Inl TypeError \<and>
   call_member (fst (close_settled (Fulfilled () :: (unit, string) promise) window_w1))
     (On_prototype getParentApplication) () = Inl TypeError \<and>
   call_member (fst (close_settled (Fulfilled () :: (unit, string) promise) window_w1))
     (On_prototype getParentWindow) (\<lambda>app. new_Window (application_identity app)) = Inl TypeError"
proof -
  let ?closed = "fst (close_settled (Fulfilled () :: (unit, string) promise) window_w1)"
  have h: "snd (close_settled (Fulfilled () :: (unit, string) promise) window_w1) = Fulfilled ()"
    by (simp add: close_settled_def)
  note t = closed_handle_calls_throw [OF h]
  show ?thesis
    using h
      t [where c = "Close None" and w = "\<lparr>sent = []\<rparr>" and g = on_member
           and args' = "(''shown'', UserListener 0, [])"
           and f = "createWindow_member :: Window \<Rightarrow> _ \<Rightarrow> string creation" and args = "([], False, 0, only_name)"]
      t [where c = "Close None" and w = "\<lparr>sent = []\<rparr>" and g = on_member
           and args' = "(''shown'', UserListener 0, [])"
           and f = "getWebWindow :: Window \<Rightarrow> (Identity \<Rightarrow> string) \<Rightarrow> string" and args = "\<lambda>i :: Identity. uuid i"]
      t [where c = "Close None" and w = "\<lparr>sent = []\<rparr>" and g = on_member
           and args' = "(''shown'', UserListener 0, [])"
           and f = isMainWindow and args = module_me]
      t [where c = "Close None" and w = "\<lparr>sent = []\<rparr>" and g = on_member
           and args' = "(''shown'', UserListener 0, [])"
           and f = getParentApplication and args = "()"]
      t [where c = "Close None" and w = "\<lparr>sent = []\<rparr>" and g = on_member
           and args' = "(''shown'', UserListener 0, [])"
           and f = "getParentWindow :: Window \<Rightarrow> (Application \<Rightarrow> Window) \<Rightarrow> Window" and args = "\<lambda>app. new_Window (application_identity app)"]
    by simp
qed

text \<open>
  As first stated, with a \<open>Closed\<close> error for every method, the property fails:
  \<open>focus()\<close> on a closed handle throws the engine's \<open>TypeError\<close> for a call of
  \<open>undefined\<close>, and a function held by the object itself, here the registry's \<open>on\<close> taken
  as such a member, is still called and registers the callback.
\<close>

theorem closed_handle_error_counterexample:
  "fst (invoke (fst (close_settled (Fulfilled () :: (unit, string) promise) window_w1)) Focus
          \<lparr>sent = []\<rparr>) = Inl TypeError \<and>
   fst (invoke (fst (close_settled (Fulfilled () :: (unit, string) promise) window_w1)) Focus
          \<lparr>sent = []\<rparr>) \<noteq> Inl Closed \<and>
   call_member (fst (close_settled (Fulfilled () :: (unit, string) promise) window_w1))
     (On_object on_member) (''shown'', UserListener 0, []) = Inr [(''shown'', UserListener 0)]"
  by (simp add: close_settled_def close_then_def invoke_def call_member_def get_member_def
        on_member_def on_def)

section \<open>Sizes and positions on the wire\<close>

lemmas payload_defs = sendAction_def Object_assign_def identity_payload_def Math_floor_def
  movement_options_def default_false_def anchor_json_def spread_bounds_def map_add_def

text \<open>
  What each operation puts on the wire for any arguments: \<open>resizeTo\<close>, \<open>resizeBy\<close> and
  \<open>showAt\<close> floor, \<open>moveTo\<close>, \<open>moveBy\<close> and \<open>setBounds\<close> pass the numbers on.
\<close>

lemma floored_operations:
  "map (\<lambda>tp. (fst tp, snd tp ''width'', snd tp ''height''))
     (sent (resizeTo width' height' anchor options win \<lparr>sent = []\<rparr>)) =
     [(''resize-window'', Some (JNum (of_int \<lfloor>width'\<rfloor>)), Some (JNum (of_int \<lfloor>height'\<rfloor>)))]"
  "map (\<lambda>tp. (fst tp, snd tp ''deltaWidth'', snd tp ''deltaHeight''))
     (sent (resizeBy deltaWidth deltaHeight anchor options win \<lparr>sent = []\<rparr>)) =
     [(''resize-window-by'', Some (JNum (of_int \<lfloor>deltaWidth\<rfloor>)),
       Some (JNum (of_int \<lfloor>deltaHeight\<rfloor>)))]"
  "map (\<lambda>tp. (fst tp, snd tp ''left'', snd tp ''top''))
     (sent (showAt left' top' force options win \<lparr>sent = []\<rparr>)) =
     [(''show-at-window'', Some (JNum (of_int \<lfloor>left'\<rfloor>)), Some (JNum (of_int \<lfloor>top'\<rfloor>)))]"
  by (simp_all add: resizeTo_def resizeBy_def showAt_def payload_defs split: option.splits)

lemma unfloored_operations:
  "map (\<lambda>tp. (fst tp, snd tp ''left'', snd tp ''top''))
     (sent (moveTo left' top' options win \<lparr>sent = []\<rparr>)) =
     [(''move-window'', Some (JNum left'), Some (JNum top'))]"
  "map (\<lambda>tp. (fst tp, snd tp ''deltaLeft'', snd tp ''deltaTop''))
     (sent (moveBy deltaLeft deltaTop options win \<lparr>sent = []\<rparr>)) =
     [(''move-window-by'', Some (JNum deltaLeft), Some (JNum deltaTop))]"
  "map (\<lambda>tp. (fst tp, snd tp ''width'', snd tp ''height'', snd tp ''left'', snd tp ''top''))
     (sent (setBounds bounds options win \<lparr>sent = []\<rparr>)) =
     [(''set-window-bounds'', Some (JNum (width bounds)), Some (JNum (height bounds)),
       Some (JNum (left bounds)), Some (JNum (top bounds)))]"
  by (simp_all add: moveTo_def moveBy_def setBounds_def payload_defs split: option.splits)

text \<open>
  C7 asks that width, height, left and top are floored before they are sent. At the
  inputs below \<open>moveTo\<close>, \<open>moveBy\<close> and \<open>setBounds\<close> send the fractions they were given,
  while \<open>showAt\<close>, given the same \<open>left\<close> and \<open>top\<close> as \<open>moveTo\<close>, sends them floored.
\<close>

theorem move_operations_send_fractions:
  "map (\<lambda>tp. (fst tp, snd tp ''left'', snd tp ''top''))
     (sent (moveTo (21 / 2) (41 / 2) None window_w1 \<lparr>sent = []\<rparr>)) =
     [(''move-window'', Some (JNum (21 / 2)), Some (JNum (41 / 2)))] \<and>
   map (\<lambda>tp. (fst tp, snd tp ''deltaLeft'', snd tp ''deltaTop''))
     (sent (moveBy (1 / 2) (3 / 2) None window_w1 \<lparr>sent = []\<rparr>)) =
     [(''move-window-by'', Some (JNum (1 / 2)), Some (JNum (3 / 2)))] \<and>
   map (\<lambda>tp. (fst tp, snd tp ''width'', snd tp ''height'', snd tp ''left'', snd tp ''top''))
     (sent (setBounds \<lparr>height = 301 / 2, width = 401 / 2, top = 41 / 2, left = 21 / 2,
                        right = None, bottom = None\<rparr> None window_w1 \<lparr>sent = []\<rparr>)) =
     [(''set-window-bounds'', Some (JNum (401 / 2)), Some (JNum (301 / 2)),
       Some (JNum (21 / 2)), Some (JNum (41 / 2)))] \<and>
   map (\<lambda>tp. (fst tp, snd tp ''left'', snd tp ''top''))
     (sent (showAt (21 / 2) (41 / 2) None None window_w1 \<lparr>sent = []\<rparr>)) =
     [(''show-at-window'', Some (JNum 10), Some (JNum 20))]"
  by (simp add: moveTo_def moveBy_def setBounds_def showAt_def payload_defs)

section \<open>Groups\<close>







text \<open>
  C9, amended. For every list of entries the resolver gives a sequence of the same
  length and order, whose i-th handle is an \<open>ExternalWindow\<close> exactly when the i-th entry's
  \<open>isExternalWindow\<close> is set and a \<open>_Window\<close> otherwise. A \<open>_Window\<close> carries the entry's
  uuid and name; an \<open>ExternalWindow\<close> carries the entry's uuid only, its name being left
  out.
\<close>

theorem windowListFromNameList_members:
  "length (windowListFromNameList identityList) = length identityList \<and>
   (\<forall>i < length identityList.
      windowListFromNameList identityList ! i =
        (if isExternalWindow (identityList ! i)
         then ExternalWindowMember
                \<lparr>external_identity = \<lparr>uuid = uuid (identityList ! i), name = None\<rparr>\<rparr>
         else WindowMember
                \<lparr>identity = \<lparr>uuid = uuid (identityList ! i), name = name (identityList ! i)\<rparr>,
                 proto = Some Window_prototype\<rparr>))"
  by (simp add: windowListFromNameList_def new_Window_def new_ExternalWindow_def)

theorem windowListFromNameList_members_witness:
  "(1::nat) < length [\<lparr>uuid = ''app'', name = Some ''w1'', isExternalWindow = False\<rparr>,
            \<lparr>uuid = ''0x1A2B'', name = Some ''Notepad'', isExternalWindow = True\<rparr>] \<and>
   windowListFromNameList [\<lparr>uuid = ''app'', name = Some ''w1'', isExternalWindow = False\<rparr>,
            \<lparr>uuid = ''0x1A2B'', name = Some ''Notepad'', isExternalWindow = True\<rparr>] ! 1 =
     ExternalWindowMember \<lparr>external_identity = \<lparr>uuid = ''0x1A2B'', name = None\<rparr>\<rparr>"
  using windowListFromNameList_members [where identityList =
      "[\<lparr>uuid = ''app'', name = Some ''w1'', isExternalWindow = False\<rparr>,
        \<lparr>uuid = ''0x1A2B'', name = Some ''Notepad'', isExternalWindow = True\<rparr>]"]
  by simp

text \<open>
  As first stated, with every handle carrying its entry's uuid and name, the property
  fails: the handle made for an external entry has no name.
\<close>

theorem external_member_name_counterexample:
  "isExternalWindow \<lparr>uuid = ''0x1A2B'', name = Some ''Notepad'', isExternalWindow = True\<rparr> \<and>
   member_identity
     (windowListFromNameList
        [\<lparr>uuid = ''0x1A2B'', name = Some ''Notepad'', isExternalWindow = True\<rparr>] ! 0) \<noteq>
     \<lparr>uuid = ''0x1A2B'', name = Some ''Notepad''\<rparr>"
  by (simp add: windowListFromNameList_def new_ExternalWindow_def)

end
